theory Spec2Isabelle
  imports Complex_Main "HOL-Library.Signed_Division"
begin

section \<open>DDSketch: a shallow embedding of \<^verbatim>\<open>includes/ddsketch/ddsketch.h\<close>\<close>

text \<open>
  Conventions of the embedding.

  \<^item> \<^verbatim>\<open>RealValue\<close> (\<^verbatim>\<open>double\<close>) is modelled by \<open>real\<close>: finite doubles with exact
    arithmetic, no rounding and no overflow. Comparisons, \<^verbatim>\<open>std::ceil\<close>, \<^verbatim>\<open>std::floor\<close>,
    \<^verbatim>\<open>std::frexp\<close>, \<^verbatim>\<open>std::ldexp\<close> and the conversion to \<^verbatim>\<open>Index\<close> are exact on doubles
    and are modelled as such; sums, products, quotients, logarithms and powers are
    the mathematical ones. The two places where the code produces a non-finite
    double on purpose (\<^verbatim>\<open>std::nan("")\<close> and the division in \<^verbatim>\<open>avg\<close>) return the type
    \<open>double_result\<close> below.
  \<^item> \<^verbatim>\<open>Index\<close> (\<^verbatim>\<open>int64_t\<close>) is modelled by \<open>int\<close>; signed overflow is undefined in
    C++ and lies outside the model. The sentinels
    \<^verbatim>\<open>std::numeric_limits<Index>::max()\<close> and \<^verbatim>\<open>min()\<close> are the constants
    \<open>INT64_MAX\<close> and \<open>INT64_MIN\<close>.
  \<^item> A member function that mutates its object takes the object and returns the
    updated one. A \<^verbatim>\<open>throw\<close> is the \<open>Inl\<close> branch of a sum type. Container accesses
    the C++ standard leaves undefined (an index or an erase outside the deque)
    are the fault \<open>undefined_behaviour\<close>, so that no theorem silently relies on
    what HOL does with \<open>xs ! i\<close> out of range.
  \<^item> Field names are the source's without the trailing underscore; the fields
    \<^verbatim>\<open>count_\<close>, \<^verbatim>\<open>min_\<close>, \<^verbatim>\<open>max_\<close>, \<^verbatim>\<open>sum_\<close> of the sketch and \<^verbatim>\<open>offset_\<close> of the mapping
    carry a prefix, because the store has fields of the same name or HOL a
    constant. Member functions that two classes share by name (\<^verbatim>\<open>add\<close>, \<^verbatim>\<open>merge\<close>,
    \<^verbatim>\<open>copy\<close>, \<^verbatim>\<open>length\<close>, \<^verbatim>\<open>key\<close>, \<^verbatim>\<open>value\<close>) carry the class.
  \<^item> The \<^verbatim>\<open>int\<close> parameters of \<^verbatim>\<open>BinList\<close> receive \<^verbatim>\<open>Index\<close> values; the narrowing to 32
    bits is not modelled. An exception ends the call with the fault alone: the
    partly updated object it leaves behind is not modelled.
\<close>

subsection \<open>Faults\<close>

datatype store_fault =
    invalid_argument        \<comment> \<open>\<^verbatim>\<open>std::invalid_argument\<close> thrown by \<^verbatim>\<open>collapsed_count\<close>\<close>
  | length_error            \<comment> \<open>a negative size converted to \<^verbatim>\<open>size_t\<close> in a container constructor\<close>
  | undefined_behaviour     \<comment> \<open>access or erase outside the container, conversion of a non-finite double\<close>

definition and_then :: "'e + 'a \<Rightarrow> ('a \<Rightarrow> 'e + 'b) \<Rightarrow> 'e + 'b" where
  "and_then m f = (case m of Inl e \<Rightarrow> Inl e | Inr x \<Rightarrow> f x)"

definition INT64_MAX :: int where
  "INT64_MAX = 2 ^ 63 - 1"

definition INT64_MIN :: int where
  "INT64_MIN = - (2 ^ 63)"

subsection \<open>BinList\<close>

type_synonym BinList = "real list"

definition index_outside_bounds :: "BinList \<Rightarrow> int \<Rightarrow> bool" where
  \<comment> \<open>the \<^verbatim>\<open>int\<close> argument is converted to \<^verbatim>\<open>size_t\<close>: a negative one is larger than any size\<close>
  "index_outside_bounds data idx = (idx < 0 \<or> idx > int (length data))"

definition collapsed_count :: "BinList \<Rightarrow> int \<Rightarrow> int \<Rightarrow> store_fault + real" where
  "collapsed_count data start_idx end_idx =
     (if index_outside_bounds data start_idx \<or> index_outside_bounds data end_idx
      then Inl invalid_argument
      else if end_idx < start_idx then Inl undefined_behaviour
      else Inr (sum_list (take (nat (end_idx - start_idx)) (drop (nat start_idx) data))))"

definition BinList_sum :: "BinList \<Rightarrow> store_fault + real" where
  "BinList_sum data = collapsed_count data 0 (int (length data))"

definition BinList_at :: "BinList \<Rightarrow> int \<Rightarrow> store_fault + real" where
  \<comment> \<open>\<^verbatim>\<open>operator[]\<close> read\<close>
  "BinList_at data idx =
     (if idx < 0 \<or> int (length data) \<le> idx then Inl undefined_behaviour
      else Inr (data ! nat idx))"

definition BinList_add_at :: "BinList \<Rightarrow> int \<Rightarrow> real \<Rightarrow> store_fault + BinList" where
  \<comment> \<open>\<^verbatim>\<open>data_[idx] += w\<close>\<close>
  "BinList_add_at data idx w =
     (if idx < 0 \<or> int (length data) \<le> idx then Inl undefined_behaviour
      else Inr (data[nat idx := data ! nat idx + w]))"

definition BinList_set_at :: "BinList \<Rightarrow> int \<Rightarrow> real \<Rightarrow> store_fault + BinList" where
  \<comment> \<open>\<^verbatim>\<open>data_[idx] = w\<close>\<close>
  "BinList_set_at data idx w =
     (if idx < 0 \<or> int (length data) \<le> idx then Inl undefined_behaviour
      else Inr (data[nat idx := w]))"

definition initialize_with_zeros :: "int \<Rightarrow> store_fault + BinList" where
  "initialize_with_zeros num_zeros =
     (if num_zeros < 0 then Inl length_error else Inr (replicate (nat num_zeros) 0))"

definition extend_front_with_zeros :: "BinList \<Rightarrow> int \<Rightarrow> store_fault + BinList" where
  "extend_front_with_zeros data n =
     (if n < 0 then Inl length_error else Inr (replicate (nat n) 0 @ data))"

definition extend_back_with_zeros :: "BinList \<Rightarrow> int \<Rightarrow> store_fault + BinList" where
  "extend_back_with_zeros data n =
     (if n < 0 then Inl length_error else Inr (data @ replicate (nat n) 0))"

definition remove_trailing_elements :: "BinList \<Rightarrow> int \<Rightarrow> store_fault + BinList" where
  "remove_trailing_elements data n =
     (if n < 0 \<or> int (length data) < n then Inl undefined_behaviour
      else Inr (take (length data - nat n) data))"

definition remove_leading_elements :: "BinList \<Rightarrow> int \<Rightarrow> store_fault + BinList" where
  "remove_leading_elements data n =
     (if n < 0 \<or> int (length data) < n then Inl undefined_behaviour
      else Inr (drop (nat n) data))"

definition replace_range_with_zeros :: "BinList \<Rightarrow> int \<Rightarrow> int \<Rightarrow> int \<Rightarrow> store_fault + BinList" where
  "replace_range_with_zeros data start_idx end_idx num_zeros =
     (if num_zeros < 0 then Inl length_error
      else if start_idx < 0 \<or> end_idx < start_idx \<or> int (length data) < end_idx
      then Inl undefined_behaviour
      else Inr (take (nat start_idx) data @ replicate (nat num_zeros) 0 @ drop (nat end_idx) data))"

subsection \<open>The dense stores\<close>

text \<open>
  \<^verbatim>\<open>BaseDenseStore\<close> and its two subclasses. The record has the fields of the base
  class and the two fields the collapsing subclasses add; \<open>variant\<close> is the
  dynamic type of the object and selects the override of each virtual function
  (\<^verbatim>\<open>get_new_length\<close>, \<^verbatim>\<open>adjust\<close>, \<^verbatim>\<open>get_index\<close>) and the \<^verbatim>\<open>copy\<close> and \<^verbatim>\<open>merge\<close> of the
  concrete class. A \<open>Dense\<close> store never reads \<open>bin_limit\<close> or \<open>is_collapsed\<close>.
\<close>

datatype store_variant = Dense | CollapsingLowest | CollapsingHighest

record Store =
  count :: real
  min_key :: int
  max_key :: int
  chunk_size :: int
  offset :: int
  bins :: BinList
  bin_limit :: int
  is_collapsed :: bool
  variant :: store_variant

definition kChunkSize :: int where
  "kChunkSize = 128"

definition BaseDenseStore :: "store_variant \<Rightarrow> int \<Rightarrow> int \<Rightarrow> Store" where
  "BaseDenseStore v limit chunk =
     \<lparr> count = 0, min_key = INT64_MAX, max_key = INT64_MIN, chunk_size = chunk,
       offset = 0, bins = [], bin_limit = limit, is_collapsed = False, variant = v \<rparr>"

definition DenseStore :: "int \<Rightarrow> Store" where
  "DenseStore chunk = BaseDenseStore Dense 0 chunk"

definition CollapsingLowestDenseStore :: "int \<Rightarrow> int \<Rightarrow> Store" where
  "CollapsingLowestDenseStore limit chunk = BaseDenseStore CollapsingLowest limit chunk"

definition CollapsingHighestDenseStore :: "int \<Rightarrow> int \<Rightarrow> Store" where
  "CollapsingHighestDenseStore limit chunk = BaseDenseStore CollapsingHighest limit chunk"

definition store_length :: "Store \<Rightarrow> int" where
  "store_length s = int (length (bins s))"

definition is_empty :: "Store \<Rightarrow> bool" where
  "is_empty s = (store_length s = 0)"

definition copy_store :: "Store \<Rightarrow> Store \<Rightarrow> Store" where
  "copy_store this other =
     (let c = this\<lparr> count := count other, min_key := min_key other, max_key := max_key other,
                    offset := offset other, bins := bins other \<rparr>
      in case variant this of
           Dense \<Rightarrow> c
         | _ \<Rightarrow> c\<lparr> bin_limit := bin_limit other, is_collapsed := is_collapsed other \<rparr>)"

definition get_new_length :: "Store \<Rightarrow> int \<Rightarrow> int \<Rightarrow> store_fault + int" where
  "get_new_length s new_min_key new_max_key =
     (let desired_length = new_max_key - new_min_key + 1 in
      if chunk_size s = 0 then Inl undefined_behaviour
      else
        let num_chunks = \<lceil>real_of_int desired_length / real_of_int (chunk_size s)\<rceil> in
        case variant s of
          Dense \<Rightarrow> Inr (chunk_size s * num_chunks)
        | _ \<Rightarrow> Inr (min (chunk_size s * num_chunks) (bin_limit s)))"

definition shift_bins :: "Store \<Rightarrow> int \<Rightarrow> store_fault + Store" where
  "shift_bins s shift =
     (if shift > 0 then
        and_then (remove_trailing_elements (bins s) shift) (\<lambda>d1.
        and_then (extend_front_with_zeros d1 shift) (\<lambda>d2.
        Inr (s\<lparr> bins := d2, offset := offset s - shift \<rparr>)))
      else
        let abs_shift = \<bar>shift\<bar> in
        and_then (remove_leading_elements (bins s) abs_shift) (\<lambda>d1.
        and_then (extend_back_with_zeros d1 abs_shift) (\<lambda>d2.
        Inr (s\<lparr> bins := d2, offset := offset s - shift \<rparr>))))"

definition center_bins :: "Store \<Rightarrow> int \<Rightarrow> int \<Rightarrow> store_fault + Store" where
  "center_bins s new_min_key new_max_key =
     (let middle_key = new_min_key + (new_max_key - new_min_key + 1) sdiv 2
      in shift_bins s (offset s + store_length s sdiv 2 - middle_key))"

definition adjust_dense :: "Store \<Rightarrow> int \<Rightarrow> int \<Rightarrow> store_fault + Store" where
  "adjust_dense s new_min_key new_max_key =
     and_then (center_bins s new_min_key new_max_key) (\<lambda>s1.
     Inr (s1\<lparr> min_key := new_min_key, max_key := new_max_key \<rparr>))"

definition adjust_lowest :: "Store \<Rightarrow> int \<Rightarrow> int \<Rightarrow> store_fault + Store" where
  "adjust_lowest s new_min_key0 new_max_key =
     (if new_max_key - new_min_key0 + 1 > store_length s then
        let new_min_key = new_max_key - store_length s + 1 in
        and_then
          (if new_min_key \<ge> max_key s then
             and_then (initialize_with_zeros (store_length s)) (\<lambda>d1.
             and_then (BinList_set_at d1 0 (count s)) (\<lambda>d2.
             Inr (s\<lparr> offset := new_min_key, min_key := new_min_key, bins := d2 \<rparr>)))
           else
             let shift = offset s - new_min_key in
             if shift < 0 then
               let collapse_start_index = min_key s - offset s;
                   collapse_end_index = new_min_key - offset s
               in
               and_then (collapsed_count (bins s) collapse_start_index collapse_end_index) (\<lambda>cc.
               and_then (replace_range_with_zeros (bins s) collapse_start_index
                           collapse_end_index (new_min_key - min_key s)) (\<lambda>d1.
               and_then (BinList_add_at d1 collapse_end_index cc) (\<lambda>d2.
               shift_bins (s\<lparr> bins := d2, min_key := new_min_key \<rparr>) shift)))
             else shift_bins (s\<lparr> min_key := new_min_key \<rparr>) shift)
          (\<lambda>s1. Inr (s1\<lparr> max_key := new_max_key, is_collapsed := True \<rparr>))
      else
        and_then (center_bins s new_min_key0 new_max_key) (\<lambda>s1.
        Inr (s1\<lparr> min_key := new_min_key0, max_key := new_max_key \<rparr>)))"

definition adjust_highest :: "Store \<Rightarrow> int \<Rightarrow> int \<Rightarrow> store_fault + Store" where
  "adjust_highest s new_min_key new_max_key0 =
     (if new_max_key0 - new_min_key + 1 > store_length s then
        let new_max_key = new_min_key + store_length s - 1 in
        and_then
          (if new_max_key \<le> min_key s then
             and_then (initialize_with_zeros (store_length s)) (\<lambda>d1.
             and_then (BinList_set_at d1 (int (length d1) - 1) (count s)) (\<lambda>d2.
             Inr (s\<lparr> offset := new_min_key, max_key := new_max_key, bins := d2 \<rparr>)))
           else
             let shift = offset s - new_min_key in
             if shift > 0 then
               let collapse_start_index = new_max_key - offset s + 1;
                   collapse_end_index = max_key s - offset s + 1
               in
               and_then (collapsed_count (bins s) collapse_start_index collapse_end_index) (\<lambda>cc.
               and_then (replace_range_with_zeros (bins s) collapse_start_index
                           collapse_end_index (max_key s - new_max_key)) (\<lambda>d1.
               and_then (BinList_add_at d1 (collapse_start_index - 1) cc) (\<lambda>d2.
               shift_bins (s\<lparr> bins := d2, max_key := new_max_key \<rparr>) shift)))
             else shift_bins (s\<lparr> max_key := new_max_key \<rparr>) shift)
          (\<lambda>s1. Inr (s1\<lparr> min_key := new_min_key, is_collapsed := True \<rparr>))
      else
        and_then (center_bins s new_min_key new_max_key0) (\<lambda>s1.
        Inr (s1\<lparr> min_key := new_min_key, max_key := new_max_key0 \<rparr>)))"

definition adjust :: "Store \<Rightarrow> int \<Rightarrow> int \<Rightarrow> store_fault + Store" where
  "adjust s new_min_key new_max_key =
     (case variant s of
        Dense \<Rightarrow> adjust_dense s new_min_key new_max_key
      | CollapsingLowest \<Rightarrow> adjust_lowest s new_min_key new_max_key
      | CollapsingHighest \<Rightarrow> adjust_highest s new_min_key new_max_key)"

definition extend_range :: "Store \<Rightarrow> int \<Rightarrow> int \<Rightarrow> store_fault + Store" where
  "extend_range s key second_key =
     (let new_min_key = min key (min second_key (min_key s));
          new_max_key = max key (max second_key (max_key s))
      in
      if is_empty s then
        and_then (get_new_length s new_min_key new_max_key) (\<lambda>new_length.
        and_then (initialize_with_zeros new_length) (\<lambda>d.
        adjust (s\<lparr> bins := d, offset := new_min_key \<rparr>) new_min_key new_max_key))
      else if new_min_key \<ge> min_key s \<and> new_max_key < offset s + store_length s then
        Inr (s\<lparr> min_key := new_min_key, max_key := new_max_key \<rparr>)
      else
        and_then (get_new_length s new_min_key new_max_key) (\<lambda>new_length.
        and_then
          (if new_length > store_length s
           then extend_back_with_zeros (bins s) (new_length - store_length s)
           else Inr (bins s)) (\<lambda>d.
        adjust (s\<lparr> bins := d \<rparr>) new_min_key new_max_key)))"

definition get_index_dense :: "Store \<Rightarrow> int \<Rightarrow> store_fault + (int \<times> Store)" where
  "get_index_dense s key =
     and_then
       (if key < min_key s \<or> key > max_key s then extend_range s key key else Inr s)
       (\<lambda>s1. Inr (key - offset s1, s1))"

definition get_index_lowest :: "Store \<Rightarrow> int \<Rightarrow> store_fault + (int \<times> Store)" where
  "get_index_lowest s key =
     (if key < min_key s then
        if is_collapsed s then Inr (0, s)
        else
          and_then (extend_range s key key) (\<lambda>s1.
          if is_collapsed s1 then Inr (0, s1) else Inr (key - offset s1, s1))
      else if key > max_key s then
        and_then (extend_range s key key) (\<lambda>s1. Inr (key - offset s1, s1))
      else Inr (key - offset s, s))"

definition get_index_highest :: "Store \<Rightarrow> int \<Rightarrow> store_fault + (int \<times> Store)" where
  "get_index_highest s key =
     (if key > max_key s then
        if is_collapsed s then Inr (store_length s - 1, s)
        else
          and_then (extend_range s key key) (\<lambda>s1.
          if is_collapsed s1 then Inr (store_length s1 - 1, s1) else Inr (key - offset s1, s1))
      else if key < min_key s then
        and_then (extend_range s key key) (\<lambda>s1. Inr (key - offset s1, s1))
      else Inr (key - offset s, s))"

definition get_index :: "Store \<Rightarrow> int \<Rightarrow> store_fault + (int \<times> Store)" where
  "get_index s key =
     (case variant s of
        Dense \<Rightarrow> get_index_dense s key
      | CollapsingLowest \<Rightarrow> get_index_lowest s key
      | CollapsingHighest \<Rightarrow> get_index_highest s key)"

definition store_add :: "Store \<Rightarrow> int \<Rightarrow> real \<Rightarrow> store_fault + Store" where
  \<comment> \<open>\<^verbatim>\<open>BaseDenseStore::add\<close>\<close>
  "store_add s key weight =
     and_then (get_index s key) (\<lambda>(idx, s1).
     and_then (BinList_add_at (bins s1) idx weight) (\<lambda>d.
     Inr (s1\<lparr> bins := d, count := count s1 + weight \<rparr>)))"

fun key_at_rank_loop :: "BinList \<Rightarrow> real \<Rightarrow> bool \<Rightarrow> real \<Rightarrow> int \<Rightarrow> int option" where
  "key_at_rank_loop [] rank lower running_ct idx = None"
| "key_at_rank_loop (bin_ct # rest) rank lower running_ct idx =
     (let running_ct' = running_ct + bin_ct in
      if (lower \<and> running_ct' > rank) \<or> (\<not> lower \<and> running_ct' \<ge> rank + 1)
      then Some idx
      else key_at_rank_loop rest rank lower running_ct' (idx + 1))"

definition key_at_rank :: "Store \<Rightarrow> real \<Rightarrow> bool \<Rightarrow> int" where
  "key_at_rank s rank lower =
     (case key_at_rank_loop (bins s) rank lower 0 0 of
        Some idx \<Rightarrow> idx + offset s
      | None \<Rightarrow> max_key s)"

fun merge_bins :: "BinList \<Rightarrow> int \<Rightarrow> BinList \<Rightarrow> int \<Rightarrow> int list \<Rightarrow> store_fault + BinList" where
  \<comment> \<open>the loop \<^verbatim>\<open>bins_[key - offset_] += store.bins_[key - store.offset_]\<close> over the keys given\<close>
  "merge_bins data off other_data other_off [] = Inr data"
| "merge_bins data off other_data other_off (key # keys) =
     and_then (BinList_at other_data (key - other_off)) (\<lambda>v.
     and_then (BinList_add_at data (key - off) v) (\<lambda>d.
     merge_bins d off other_data other_off keys))"

definition merge_extend :: "Store \<Rightarrow> Store \<Rightarrow> store_fault + Store" where
  \<comment> \<open>the statement shared by the three \<^verbatim>\<open>merge\<close> functions that widens the receiver's range\<close>
  "merge_extend this other =
     (if min_key other < min_key this \<or> max_key other > max_key this
      then extend_range this (min_key other) (max_key other)
      else Inr this)"

definition merge_dense :: "Store \<Rightarrow> Store \<Rightarrow> store_fault + Store" where
  "merge_dense this other =
     (if count other = 0 then Inr this
      else if count this = 0 then Inr (copy_store this other)
      else
        and_then (merge_extend this other) (\<lambda>s1.
        and_then (merge_bins (bins s1) (offset s1) (bins other) (offset other)
                    [min_key other .. max_key other]) (\<lambda>d.
        Inr (s1\<lparr> bins := d, count := count s1 + count other \<rparr>))))"

definition merge_lowest :: "Store \<Rightarrow> Store \<Rightarrow> store_fault + Store" where
  \<comment> \<open>as in the source, \<^verbatim>\<open>collapsed_count\<close> is called on the receiver's own \<^verbatim>\<open>bins_\<close>\<close>
  "merge_lowest this other =
     (if count other = 0 then Inr this
      else if count this = 0 then Inr (copy_store this other)
      else
        and_then (merge_extend this other) (\<lambda>s1.
        let collapse_start_idx = min_key other - offset other;
            collapse_end_idx = min (min_key s1) (max_key other + 1) - offset other
        in
        and_then
          (if collapse_end_idx > collapse_start_idx then
             and_then (collapsed_count (bins s1) collapse_start_idx collapse_end_idx) (\<lambda>cc.
             and_then (BinList_add_at (bins s1) 0 cc) (\<lambda>d.
             Inr (d, collapse_end_idx)))
           else Inr (bins s1, collapse_start_idx)) (\<lambda>(d1, collapse_end_idx1).
        and_then (merge_bins d1 (offset s1) (bins other) (offset other)
                    [collapse_end_idx1 + offset other .. max_key other]) (\<lambda>d2.
        Inr (s1\<lparr> bins := d2, count := count s1 + count other \<rparr>)))))"

definition merge_highest :: "Store \<Rightarrow> Store \<Rightarrow> store_fault + Store" where
  "merge_highest this other =
     (if count other = 0 then Inr this
      else if count this = 0 then Inr (copy_store this other)
      else
        and_then (merge_extend this other) (\<lambda>s1.
        let collapse_end_idx = max_key other - offset other + 1;
            collapse_start_idx = max (max_key s1 + 1) (min_key other) - offset other
        in
        and_then
          (if collapse_end_idx > collapse_start_idx then
             and_then (collapsed_count (bins s1) collapse_start_idx collapse_end_idx) (\<lambda>cc.
             and_then (BinList_add_at (bins s1) (store_length s1 - 1) cc) (\<lambda>d.
             Inr (d, collapse_start_idx)))
           else Inr (bins s1, collapse_end_idx)) (\<lambda>(d1, collapse_start_idx1).
        and_then (merge_bins d1 (offset s1) (bins other) (offset other)
                    [min_key other .. collapse_start_idx1 + offset other - 1]) (\<lambda>d2.
        Inr (s1\<lparr> bins := d2, count := count s1 + count other \<rparr>)))))"

definition store_merge :: "Store \<Rightarrow> Store \<Rightarrow> store_fault + Store" where
  "store_merge this other =
     (case variant this of
        Dense \<Rightarrow> merge_dense this other
      | CollapsingLowest \<Rightarrow> merge_lowest this other
      | CollapsingHighest \<Rightarrow> merge_highest this other)"

subsection \<open>Key mappings\<close>

datatype sketch_fault =
    IllegalArgumentException
  | UnequalSketchParametersException
  | StoreFault store_fault      \<comment> \<open>a fault of a store operation, propagated unchanged\<close>

definition of_store :: "store_fault + 'a \<Rightarrow> sketch_fault + 'a" where
  "of_store r = (case r of Inl f \<Rightarrow> Inl (StoreFault f) | Inr x \<Rightarrow> Inr x)"

definition DBL_MAX :: real where
  \<comment> \<open>\<^verbatim>\<open>std::numeric_limits<double>::max()\<close>, the largest finite double\<close>
  "DBL_MAX = (2 - 1 / 2 ^ 52) * 2 ^ 1023"

definition DBL_MIN :: real where
  \<comment> \<open>\<^verbatim>\<open>std::numeric_limits<double>::min()\<close>, the smallest positive normalised double\<close>
  "DBL_MIN = 1 / 2 ^ 1022"

datatype mapping_kind = Logarithmic | LinearlyInterpolated | CubicallyInterpolated

record KeyMapping =
  relative_accuracy :: real
  mapping_offset :: real
  gamma :: real
  min_possible :: real
  max_possible :: real
  multiplier :: real
  kind :: mapping_kind

definition KeyMapping_base :: "mapping_kind \<Rightarrow> real \<Rightarrow> real \<Rightarrow> sketch_fault + KeyMapping" where
  \<comment> \<open>the protected constructor of \<^verbatim>\<open>KeyMapping\<close>; \<^verbatim>\<open>std::log1p x\<close> is \<open>ln (1 + x)\<close>\<close>
  "KeyMapping_base k ra off =
     (if ra \<le> 0 \<or> ra \<ge> 1 then Inl IllegalArgumentException
      else
        let gamma_mantissa = 2 * ra / (1 - ra);
            g = 1 + gamma_mantissa
        in Inr \<lparr> relative_accuracy = ra, mapping_offset = off, gamma = g,
                 min_possible = DBL_MIN * g, max_possible = DBL_MAX / g,
                 multiplier = 1 / ln (1 + gamma_mantissa), kind = k \<rparr>)"

definition cubic_A :: real where "cubic_A = 6 / 35"
definition cubic_B :: real where "cubic_B = - 3 / 5"
definition cubic_C :: real where "cubic_C = 10 / 7"

definition LogarithmicMapping :: "real \<Rightarrow> real \<Rightarrow> sketch_fault + KeyMapping" where
  "LogarithmicMapping ra off =
     and_then (KeyMapping_base Logarithmic ra off) (\<lambda>m.
     Inr (m\<lparr> multiplier := multiplier m * ln 2 \<rparr>))"

definition LinearlyInterpolatedMapping :: "real \<Rightarrow> real \<Rightarrow> sketch_fault + KeyMapping" where
  "LinearlyInterpolatedMapping ra off = KeyMapping_base LinearlyInterpolated ra off"

definition CubicallyInterpolatedMapping :: "real \<Rightarrow> real \<Rightarrow> sketch_fault + KeyMapping" where
  "CubicallyInterpolatedMapping ra off =
     and_then (KeyMapping_base CubicallyInterpolated ra off) (\<lambda>m.
     Inr (m\<lparr> multiplier := multiplier m / cubic_C \<rparr>))"

definition new_mapping :: "mapping_kind \<Rightarrow> real \<Rightarrow> real \<Rightarrow> sketch_fault + KeyMapping" where
  \<comment> \<open>the public constructor of the class named by the first argument\<close>
  "new_mapping k ra off =
     (case k of
        Logarithmic \<Rightarrow> LogarithmicMapping ra off
      | LinearlyInterpolated \<Rightarrow> LinearlyInterpolatedMapping ra off
      | CubicallyInterpolated \<Rightarrow> CubicallyInterpolatedMapping ra off)"

definition frexp :: "real \<Rightarrow> real \<times> int" where
  \<comment> \<open>\<^verbatim>\<open>std::frexp\<close>: \<open>v = m * 2 ^ e\<close> with \<open>\<bar>m\<bar>\<close> in \<open>[1/2, 1)\<close>, or \<open>(0, 0)\<close> for \<open>v = 0\<close>\<close>
  "frexp v =
     (if v = 0 then (0, 0)
      else let e = \<lfloor>log 2 \<bar>v\<bar>\<rfloor> + 1 in (v / 2 powi e, e))"

definition ldexp :: "real \<Rightarrow> int \<Rightarrow> real" where
  "ldexp x e = x * 2 powi e"

definition log2_approx :: "real \<Rightarrow> real" where
  "log2_approx v =
     (let (mantissa, exponent) = frexp v;
          significand = 2 * mantissa - 1
      in significand + (of_int exponent - 1))"

definition exp2_approx :: "real \<Rightarrow> real" where
  "exp2_approx v =
     (let exponent = \<lfloor>v\<rfloor> + 1;
          mantissa = (v - of_int exponent + 2) / 2
      in ldexp mantissa exponent)"

definition cubic_log2_approx :: "real \<Rightarrow> real" where
  "cubic_log2_approx v =
     (let (mantissa, exponent) = frexp v;
          significand = 2 * mantissa - 1
      in ((cubic_A * significand + cubic_B) * significand + cubic_C) * significand
         + (of_int exponent - 1))"

definition cubic_exp2_approx :: "real \<Rightarrow> real" where
  \<comment> \<open>\<^verbatim>\<open>std::cbrt\<close> is \<open>root 3\<close>, the real cube root\<close>
  "cubic_exp2_approx v =
     (let exponent = \<lfloor>v\<rfloor>;
          delta_0 = cubic_B * cubic_B - 3 * cubic_A * cubic_C;
          delta_1 = 2 * cubic_B * cubic_B * cubic_B - 9 * cubic_A * cubic_B * cubic_C
                    - 27 * cubic_A * cubic_A * (v - of_int exponent);
          cardano = root 3 ((delta_1 - sqrt (delta_1 * delta_1
                                             - 4 * delta_0 * delta_0 * delta_0)) / 2);
          significand_plus_one = - (cubic_B + cardano + delta_0 / cardano) / (3 * cubic_A) + 1;
          mantissa = significand_plus_one / 2
      in ldexp mantissa (exponent + 1))"

definition log_gamma :: "KeyMapping \<Rightarrow> real \<Rightarrow> real" where
  "log_gamma m v =
     (case kind m of
        Logarithmic \<Rightarrow> log 2 v * multiplier m
      | LinearlyInterpolated \<Rightarrow> log2_approx v * multiplier m
      | CubicallyInterpolated \<Rightarrow> cubic_log2_approx v * multiplier m)"

definition pow_gamma :: "KeyMapping \<Rightarrow> real \<Rightarrow> real" where
  \<comment> \<open>\<^verbatim>\<open>std::exp2 x\<close> is \<open>2 powr x\<close>\<close>
  "pow_gamma m v =
     (case kind m of
        Logarithmic \<Rightarrow> 2 powr (v / multiplier m)
      | LinearlyInterpolated \<Rightarrow> exp2_approx (v / multiplier m)
      | CubicallyInterpolated \<Rightarrow> cubic_exp2_approx (v / multiplier m))"

definition static_cast_Index :: "real \<Rightarrow> int" where
  \<comment> \<open>conversion of a double to \<^verbatim>\<open>Index\<close>: the fractional part is discarded\<close>
  "static_cast_Index x = (if x \<ge> 0 then \<lfloor>x\<rfloor> else \<lceil>x\<rceil>)"

definition mapping_key :: "KeyMapping \<Rightarrow> real \<Rightarrow> int" where
  \<comment> \<open>\<^verbatim>\<open>KeyMapping::key\<close>\<close>
  "mapping_key m v = static_cast_Index (of_int \<lceil>log_gamma m v\<rceil> + mapping_offset m)"

definition mapping_value :: "KeyMapping \<Rightarrow> int \<Rightarrow> real" where
  \<comment> \<open>\<^verbatim>\<open>KeyMapping::value\<close>\<close>
  "mapping_value m k = pow_gamma m (of_int k - mapping_offset m) * (2 / (1 + gamma m))"

subsection \<open>The sketch\<close>

text \<open>
  A \<^verbatim>\<open>double\<close> result that the code makes non-finite on purpose. \<open>double_div\<close> is the
  division of two finite doubles as IEEE 754 defines it at a zero divisor (the
  sign of a zero is not modelled).
\<close>

datatype double_result = NaN | PosInf | NegInf | Finite real

definition double_div :: "real \<Rightarrow> real \<Rightarrow> double_result" where
  "double_div x y =
     (if y \<noteq> 0 then Finite (x / y)
      else if x = 0 then NaN
      else if x > 0 then PosInf else NegInf)"

record BaseDDSketch =
  mapping :: KeyMapping
  store :: Store
  negative_store :: Store
  zero_count :: real
  sketch_count :: real
  sketch_min :: real
  sketch_max :: real
  sketch_sum :: real

definition new_sketch :: "KeyMapping \<Rightarrow> Store \<Rightarrow> Store \<Rightarrow> BaseDDSketch" where
  \<comment> \<open>the constructor \<^verbatim>\<open>BaseDDSketch(mapping, store, negative_store)\<close>\<close>
  "new_sketch m s ns =
     \<lparr> mapping = m, store = s, negative_store = ns, zero_count = 0, sketch_count = 0,
       sketch_min = DBL_MAX, sketch_max = DBL_MIN, sketch_sum = 0 \<rparr>"

definition kDefaultBinLimit :: int where
  "kDefaultBinLimit = 2048"

definition adjust_bin_limit :: "int \<Rightarrow> int" where
  "adjust_bin_limit limit = (if limit \<le> 0 then kDefaultBinLimit else limit)"

definition DDSketch :: "real \<Rightarrow> sketch_fault + BaseDDSketch" where
  "DDSketch ra =
     and_then (LogarithmicMapping ra 0) (\<lambda>m.
     Inr (new_sketch m (DenseStore kChunkSize) (DenseStore kChunkSize)))"

definition LogCollapsingLowestDenseDDSketch :: "real \<Rightarrow> int \<Rightarrow> sketch_fault + BaseDDSketch" where
  "LogCollapsingLowestDenseDDSketch ra limit =
     and_then (LogarithmicMapping ra 0) (\<lambda>m.
     Inr (new_sketch m (CollapsingLowestDenseStore (adjust_bin_limit limit) kChunkSize)
                       (CollapsingLowestDenseStore (adjust_bin_limit limit) kChunkSize)))"

definition LogCollapsingHighestDenseDDSketch :: "real \<Rightarrow> int \<Rightarrow> sketch_fault + BaseDDSketch" where
  "LogCollapsingHighestDenseDDSketch ra limit =
     and_then (LogarithmicMapping ra 0) (\<lambda>m.
     Inr (new_sketch m (CollapsingHighestDenseStore (adjust_bin_limit limit) kChunkSize)
                       (CollapsingHighestDenseStore (adjust_bin_limit limit) kChunkSize)))"

definition num_values :: "BaseDDSketch \<Rightarrow> real" where
  "num_values sk = sketch_count sk"

definition avg :: "BaseDDSketch \<Rightarrow> double_result" where
  "avg sk = double_div (sketch_sum sk) (sketch_count sk)"

definition update_summary :: "BaseDDSketch \<Rightarrow> real \<Rightarrow> real \<Rightarrow> BaseDDSketch" where
  \<comment> \<open>the statements of \<^verbatim>\<open>add\<close> under the comment "Keep track of summary stats"\<close>
  "update_summary sk val weight =
     (let sk1 = sk\<lparr> sketch_count := sketch_count sk + weight,
                    sketch_sum := sketch_sum sk + val * weight \<rparr>;
          sk2 = (if val < sketch_min sk1 then sk1\<lparr> sketch_min := val \<rparr> else sk1)
      in if val > sketch_max sk2 then sk2\<lparr> sketch_max := val \<rparr> else sk2)"

definition sketch_add :: "BaseDDSketch \<Rightarrow> real \<Rightarrow> real \<Rightarrow> sketch_fault + BaseDDSketch" where
  \<comment> \<open>\<^verbatim>\<open>BaseDDSketch::add\<close>\<close>
  "sketch_add sk val weight =
     (if weight \<le> 0 then Inl IllegalArgumentException
      else
        and_then
          (if val > min_possible (mapping sk) then
             and_then (of_store (store_add (store sk) (mapping_key (mapping sk) val) weight))
               (\<lambda>s. Inr (sk\<lparr> store := s \<rparr>))
           else if val < - min_possible (mapping sk) then
             and_then (of_store (store_add (negative_store sk)
                                   (mapping_key (mapping sk) (- val)) weight))
               (\<lambda>s. Inr (sk\<lparr> negative_store := s \<rparr>))
           else Inr (sk\<lparr> zero_count := zero_count sk + weight \<rparr>))
          (\<lambda>sk1. Inr (update_summary sk1 val weight)))"

definition get_quantile_value :: "BaseDDSketch \<Rightarrow> real \<Rightarrow> double_result" where
  "get_quantile_value sk quantile =
     (if quantile < 0 \<or> quantile > 1 \<or> sketch_count sk = 0 then NaN
      else
        let rank = quantile * (sketch_count sk - 1) in
        if rank < count (negative_store sk) then
          let reversed_rank = count (negative_store sk) - rank - 1;
              k = key_at_rank (negative_store sk) reversed_rank False
          in Finite (- mapping_value (mapping sk) k)
        else if rank < zero_count sk + count (negative_store sk) then Finite 0
        else
          let k = key_at_rank (store sk)
                    (rank - zero_count sk - count (negative_store sk)) True
          in Finite (mapping_value (mapping sk) k))"

definition mergeable :: "BaseDDSketch \<Rightarrow> BaseDDSketch \<Rightarrow> bool" where
  "mergeable this other = (gamma (mapping this) = gamma (mapping other))"

definition copy_sketch :: "BaseDDSketch \<Rightarrow> BaseDDSketch \<Rightarrow> BaseDDSketch" where
  \<comment> \<open>\<^verbatim>\<open>BaseDDSketch::copy\<close>; the mapping is not among the members assigned\<close>
  "copy_sketch this other =
     this\<lparr> store := copy_store (store this) (store other),
           negative_store := copy_store (negative_store this) (negative_store other),
           zero_count := zero_count other,
           sketch_min := sketch_min other,
           sketch_max := sketch_max other,
           sketch_count := sketch_count other,
           sketch_sum := sketch_sum other \<rparr>"

definition merge_summary :: "BaseDDSketch \<Rightarrow> BaseDDSketch \<Rightarrow> BaseDDSketch" where
  \<comment> \<open>the statements of \<^verbatim>\<open>merge\<close> after the two store merges\<close>
  "merge_summary this other =
     (let t1 = this\<lparr> zero_count := zero_count this + zero_count other,
                      sketch_count := sketch_count this + sketch_count other,
                      sketch_sum := sketch_sum this + sketch_sum other \<rparr>;
          t2 = (if sketch_min other < sketch_min t1 then t1\<lparr> sketch_min := sketch_min other \<rparr>
                else t1)
      in if sketch_max other > sketch_max t2 then t2\<lparr> sketch_max := sketch_max other \<rparr> else t2)"

definition sketch_merge ::
  "BaseDDSketch \<Rightarrow> BaseDDSketch \<Rightarrow> sketch_fault + (BaseDDSketch \<times> BaseDDSketch)" where
  \<comment> \<open>\<^verbatim>\<open>BaseDDSketch::merge\<close> on the two objects it can reach: the result is the receiver
      and the argument as the call leaves them\<close>
  "sketch_merge this other =
     (if \<not> mergeable this other then Inl UnequalSketchParametersException
      else if sketch_count other = 0 then Inr (this, other)
      else if sketch_count this = 0 then Inr (copy_sketch this other, other)
      else
        and_then (of_store (store_merge (store this) (store other))) (\<lambda>s.
        and_then (of_store (store_merge (negative_store this) (negative_store other))) (\<lambda>ns.
        Inr (merge_summary (this\<lparr> store := s, negative_store := ns \<rparr>) other, other))))"

subsection \<open>Notions used in the statements\<close>





definition same_counters :: "Store \<Rightarrow> Store \<Rightarrow> bool" where
  \<comment> \<open>two stores hold the same bins under the same keys\<close>
  "same_counters a b =
     (count a = count b \<and> min_key a = min_key b \<and> max_key a = max_key b
      \<and> offset a = offset b \<and> bins a = bins b)"

fun store_add_all :: "Store \<Rightarrow> (int \<times> real) list \<Rightarrow> store_fault + Store" where
  \<comment> \<open>a sequence of \<^verbatim>\<open>add(key, weight)\<close> calls on one store\<close>
  "store_add_all s [] = Inr s"
| "store_add_all s ((k, w) # kws) = and_then (store_add s k w) (\<lambda>s1. store_add_all s1 kws)"


definition example_mapping :: "real \<Rightarrow> KeyMapping" where
  \<comment> \<open>the mapping that \<^verbatim>\<open>LogarithmicMapping(0.5, off)\<close> constructs\<close>
  "example_mapping off =
     \<lparr> relative_accuracy = 1 / 2, mapping_offset = off, gamma = 3,
       min_possible = DBL_MIN * 3, max_possible = DBL_MAX / 3,
       multiplier = 1 / ln 3 * ln 2, kind = Logarithmic \<rparr>"

definition example_sketch :: "real \<Rightarrow> BaseDDSketch" where
  \<comment> \<open>\<^verbatim>\<open>BaseDDSketch<DenseStore, LogarithmicMapping>(LogarithmicMapping(0.5, off),
      DenseStore(), DenseStore())\<close>\<close>
  "example_sketch off =
     new_sketch (example_mapping off) (DenseStore kChunkSize) (DenseStore kChunkSize)"

section \<open>Auxiliary facts\<close>

lemmas binlist_defs = index_outside_bounds_def collapsed_count_def BinList_sum_def BinList_at_def
  BinList_add_at_def BinList_set_at_def initialize_with_zeros_def extend_front_with_zeros_def
  extend_back_with_zeros_def remove_trailing_elements_def remove_leading_elements_def
  replace_range_with_zeros_def

lemmas store_defs = BaseDenseStore_def DenseStore_def CollapsingLowestDenseStore_def
  CollapsingHighestDenseStore_def store_length_def is_empty_def copy_store_def get_new_length_def
  shift_bins_def center_bins_def adjust_dense_def adjust_lowest_def adjust_highest_def adjust_def
  extend_range_def get_index_dense_def get_index_lowest_def get_index_highest_def get_index_def
  store_add_def key_at_rank_def merge_extend_def merge_dense_def merge_lowest_def merge_highest_def
  store_merge_def and_then_def INT64_MAX_def INT64_MIN_def kChunkSize_def signed_divide_int_def

lemmas mapping_ctor_defs = new_mapping_def LogarithmicMapping_def LinearlyInterpolatedMapping_def
  CubicallyInterpolatedMapping_def KeyMapping_base_def and_then_def

subsection \<open>The scan of \<^verbatim>\<open>key_at_rank\<close>\<close>












subsection \<open>Mappings and copies\<close>

lemma log_gamma_one: "new_mapping k ra off = Inr m \<Longrightarrow> log_gamma m 1 = 0"
  by (cases k) (auto simp: mapping_ctor_defs log_gamma_def Let_def
      log2_approx_def cubic_log2_approx_def frexp_def split: if_splits)

lemma copy_store_fields:
  "bins (copy_store s t) = bins t" "offset (copy_store s t) = offset t"
  "max_key (copy_store s t) = max_key t" "min_key (copy_store s t) = min_key t"
  "count (copy_store s t) = count t"
  by (cases "variant s"; simp add: copy_store_def)+

lemma key_at_rank_copy_store: "key_at_rank (copy_store s t) r lower = key_at_rank t r lower"
  by (simp only: key_at_rank_def copy_store_fields)

lemma same_counters_copy_store: "same_counters (copy_store s t) t"
  by (simp add: copy_store_fields same_counters_def)

lemma mapping_value_cong:
  assumes "kind m1 = kind m2" "multiplier m1 = multiplier m2"
    "mapping_offset m1 = mapping_offset m2" "gamma m1 = gamma m2"
  shows "mapping_value m1 k = mapping_value m2 k"
  unfolding mapping_value_def pow_gamma_def assms by (rule refl)

lemma get_quantile_value_copy:
  assumes "kind (mapping this) = kind (mapping other)"
    "multiplier (mapping this) = multiplier (mapping other)"
    "mapping_offset (mapping this) = mapping_offset (mapping other)"
    "gamma (mapping this) = gamma (mapping other)"
  shows "get_quantile_value (copy_sketch this other) q = get_quantile_value other q"
proof -
  have v: "mapping_value (mapping this) k = mapping_value (mapping other) k" for k
    by (rule mapping_value_cong[OF assms])
  show ?thesis
    by (simp add: get_quantile_value_def copy_sketch_def key_at_rank_copy_store
        copy_store_fields Let_def v)
qed



lemma key_one: "new_mapping k ra off = Inr m \<Longrightarrow> mapping_key m 1 = static_cast_Index off"
proof -
  assume a: "new_mapping k ra off = Inr m"
  then have "mapping_offset m = off"
    by (cases k) (auto simp: mapping_ctor_defs Let_def split: if_splits)
  with log_gamma_one[OF a] show ?thesis by (simp add: mapping_key_def)
qed

subsection \<open>The example sketches\<close>

lemma example_mapping_built: "new_mapping Logarithmic (1 / 2) off = Inr (example_mapping off)"
  by (simp add: mapping_ctor_defs example_mapping_def)

lemma ceiling_one_128: "\<lceil>(1::real) / 128\<rceil> = 1"
  by (simp add: ceiling_eq_iff)

lemma two_powr_ln3: "2 powr (ln 3 / ln 2) = (3::real)"
proof -
  have "2 powr (ln 3 / ln 2) = exp (ln 3 / ln 2 * ln (2::real))" by (simp add: powr_def mult.commute)
  also have "\<dots> = 3" by simp
  finally show ?thesis .
qed

lemma example_key_one: "mapping_key (example_mapping 0) 1 = 0" "mapping_key (example_mapping 1) 1 = 1"
  by (simp_all add: mapping_key_def example_mapping_def log_gamma_def static_cast_Index_def)

lemma first_add_dense_eval:
  "map_sum id (\<lambda>s. (count s, key_at_rank s 0 True)) (store_add (DenseStore kChunkSize) 0 1)
     = Inr (1, 0)"
  "map_sum id (\<lambda>s. (count s, key_at_rank s 0 True)) (store_add (DenseStore kChunkSize) 1 1)
     = Inr (1, 1)"
  by code_simp+

lemma first_add_dense:
  "\<exists>s. store_add (DenseStore kChunkSize) 0 1 = Inr s \<and> count s = 1 \<and> key_at_rank s 0 True = 0"
  "\<exists>s. store_add (DenseStore kChunkSize) 1 1 = Inr s \<and> count s = 1 \<and> key_at_rank s 0 True = 1"
  using first_add_dense_eval
  by (cases "store_add (DenseStore kChunkSize) 0 1"; cases "store_add (DenseStore kChunkSize) 1 1"; simp)+

lemma example_add_one:
  assumes "store_add (DenseStore kChunkSize) (mapping_key (example_mapping off) 1) 1 = Inr s"
  shows "sketch_add (example_sketch off) 1 1 =
     Inr \<lparr> mapping = example_mapping off, store = s, negative_store = DenseStore kChunkSize,
           zero_count = 0, sketch_count = 1, sketch_min = 1, sketch_max = 1, sketch_sum = 1 \<rparr>"
proof -
  have "(1::real) > min_possible (example_mapping off)"
    by (simp add: example_mapping_def DBL_MIN_def)
  then show ?thesis using assms
    by (simp add: sketch_add_def example_sketch_def new_sketch_def of_store_def and_then_def
        update_summary_def DBL_MAX_def DBL_MIN_def)
qed


lemma example_quantile:
  assumes "count s = 1" "key_at_rank s 0 True = k"
  shows "get_quantile_value
     \<lparr> mapping = example_mapping off, store = s, negative_store = DenseStore kChunkSize,
           zero_count = 0, sketch_count = 1, sketch_min = 1, sketch_max = 1, sketch_sum = 1 \<rparr> (1 / 2)
     = Finite (2 powr ((of_int k - off) / (1 / ln 3 * ln 2)) * (1 / 2))"
  using assms
  by (simp add: get_quantile_value_def DenseStore_def BaseDenseStore_def mapping_value_def
      pow_gamma_def example_mapping_def)

section \<open>The claims\<close>

subsection \<open>C1: the relative accuracy of a mapping\<close>

text \<open>
  Claim C1. For every mapping constructed with relative accuracy \<open>\<alpha>\<close> and every \<open>v\<close>
  between \<^verbatim>\<open>min_possible\<close> and \<^verbatim>\<open>max_possible\<close>, \<^verbatim>\<open>value(key(v))\<close> is within relative error
  \<open>\<alpha>\<close> of \<open>v\<close>. The code does not keep this for an offset that is not an integer:
  \<^verbatim>\<open>key\<close> discards the fractional part of \<open>\<lceil>log_gamma v\<rceil> + offset\<close> and \<^verbatim>\<open>value\<close> subtracts
  the whole offset again. Evaluated on \<^verbatim>\<open>LogarithmicMapping(0.01, 7768.3)\<close>, an offset
  of the repository's own test, at \<open>v = 1\<close>: the key is 7768 and the value returned is
  below \<open>0.99\<close>, a relative error above \<open>0.01\<close>.
\<close>

theorem roundtrip_fractional_offset:
  "\<exists>m. LogarithmicMapping (1 / 100) (77683 / 10) = Inr m
     \<and> min_possible m \<le> 1 \<and> 1 \<le> max_possible m
     \<and> mapping_key m 1 = 7768
     \<and> mapping_value m 7768 < 99 / 100
     \<and> \<bar>mapping_value m (mapping_key m 1) - 1\<bar> / 1 > relative_accuracy m"
proof -
  let ?m = "\<lparr> relative_accuracy = 1 / 100, mapping_offset = 77683 / 10, gamma = 101 / 99,
       min_possible = DBL_MIN * (101 / 99), max_possible = DBL_MAX / (101 / 99),
       multiplier = 1 / ln (101 / 99) * ln 2, kind = Logarithmic \<rparr>"
  have m: "LogarithmicMapping (1 / 100) (77683 / 10) = Inr ?m"
    by (simp add: mapping_ctor_defs Let_def)
  have r: "min_possible ?m \<le> 1" "1 \<le> max_possible ?m"
    by (simp_all add: DBL_MIN_def DBL_MAX_def)
  have k: "mapping_key ?m 1 = 7768"
    by (simp add: mapping_key_def log_gamma_def static_cast_Index_def)
  have pos: "0 < 1 / ln (101 / 99 :: real) * ln 2" by simp
  have "(of_int 7768 - 77683 / 10) / (1 / ln (101 / 99 :: real) * ln 2) < 0"
    using pos by (simp add: divide_neg_pos)
  then have "2 powr ((of_int 7768 - 77683 / 10) / (1 / ln (101 / 99 :: real) * ln 2)) < 2 powr 0"
    by (intro powr_less_mono) simp_all
  then have p: "pow_gamma ?m (of_int 7768 - mapping_offset ?m) < 1"
    by (simp add: pow_gamma_def)
  have "mapping_value ?m 7768 = pow_gamma ?m (of_int 7768 - mapping_offset ?m) * (99 / 100)"
    by (simp add: mapping_value_def)
  with p have v: "mapping_value ?m 7768 < 99 / 100" by simp
  then have e: "\<bar>mapping_value ?m (mapping_key ?m 1) - 1\<bar> / 1 > relative_accuracy ?m"
    unfolding k by simp
  from m r k v e show ?thesis by blast
qed

text \<open>
  For comparison, the round trip of the logarithmic mapping at an integral offset
  (the default 0 among them), in exact arithmetic: the fractional part that \<^verbatim>\<open>key\<close>
  discards is then zero and the bound of the claim holds.
\<close>

lemma logarithmic_fields:
  assumes "LogarithmicMapping ra off = Inr m"
  shows "0 < ra" "ra < 1" "gamma m = (1 + ra) / (1 - ra)" "multiplier m = ln 2 / ln (gamma m)"
    "mapping_offset m = off" "kind m = Logarithmic" "relative_accuracy m = ra"
proof -
  from assms have r: "0 < ra" "ra < 1"
    by (auto simp: mapping_ctor_defs split: if_splits)
  then have m: "m = \<lparr> relative_accuracy = ra, mapping_offset = off, gamma = 1 + 2 * ra / (1 - ra),
       min_possible = DBL_MIN * (1 + 2 * ra / (1 - ra)), max_possible = DBL_MAX / (1 + 2 * ra / (1 - ra)),
       multiplier = 1 / ln (1 + 2 * ra / (1 - ra)) * ln 2, kind = Logarithmic \<rparr>"
    using assms by (auto simp: mapping_ctor_defs Let_def)
  show "0 < ra" "ra < 1" by fact+
  show "gamma m = (1 + ra) / (1 - ra)" using r by (simp add: m field_simps)
  show "multiplier m = ln 2 / ln (gamma m)" by (simp add: m)
  show "mapping_offset m = off" "kind m = Logarithmic" "relative_accuracy m = ra" by (simp_all add: m)
qed

lemma logarithmic_roundtrip_integral_offset:
  assumes m: "LogarithmicMapping ra (of_int n) = Inr m" and v: "0 < v"
  shows "\<bar>mapping_value m (mapping_key m v) - v\<bar> / v \<le> ra"
proof -
  note f = logarithmic_fields[OF m]
  let ?g = "gamma m"
  have g1: "1 < ?g" using f(1,2) by (simp add: f(3))
  then have lg: "0 < ln ?g" by simp
  define L where "L = log 2 v * multiplier m"
  have L: "L = ln v / ln ?g" using lg by (simp add: L_def f(4) log_def)
  define c where "c = \<lceil>L\<rceil>"
  have lgam: "log_gamma m v = L" by (simp add: log_gamma_def f(6) L_def)
  have "static_cast_Index (of_int (c + n)) = c + n"
    unfolding static_cast_Index_def by simp
  then have key: "mapping_key m v = c + n"
    unfolding mapping_key_def lgam f(5) c_def by simp
  have "pow_gamma m (of_int (c + n) - mapping_offset m) = 2 powr (of_int c / multiplier m)"
    by (simp add: pow_gamma_def f)
  also have "\<dots> = exp (of_int c * ln ?g)"
    using lg by (simp add: powr_def f(4))
  finally have pw: "pow_gamma m (of_int (c + n) - mapping_offset m) = exp (of_int c * ln ?g)" .
  have two: "2 / (1 + ?g) = 1 - ra" using f(1,2) by (simp add: f(3) field_simps)
  have val: "mapping_value m (mapping_key m v) = exp (of_int c * ln ?g) * (1 - ra)"
    unfolding mapping_value_def key pw two ..
  have "L \<le> of_int c" "of_int c < L + 1" unfolding c_def by linarith+
  then have "ln v \<le> of_int c * ln ?g" "of_int c * ln ?g < ln v + ln ?g"
    using lg by (simp_all add: L field_simps)
  then have "exp (ln v) \<le> exp (of_int c * ln ?g)" "exp (of_int c * ln ?g) < exp (ln v + ln ?g)"
    by simp_all
  then have b: "v \<le> exp (of_int c * ln ?g)" "exp (of_int c * ln ?g) < v * ?g"
    using v g1 by (simp_all add: exp_add)
  have lo: "v * (1 - ra) \<le> mapping_value m (mapping_key m v)"
    unfolding val using b(1) f(2) by (intro mult_right_mono) simp_all
  have "mapping_value m (mapping_key m v) < v * ?g * (1 - ra)"
    unfolding val using b(2) f(2) by (intro mult_strict_right_mono) simp_all
  also have "v * ?g * (1 - ra) = v * (1 + ra)" using f(2) by (simp add: f(3))
  finally have hi: "mapping_value m (mapping_key m v) < v * (1 + ra)" .
  have "\<bar>mapping_value m (mapping_key m v) - v\<bar> \<le> ra * v"
    using lo hi by (simp add: abs_le_iff algebra_simps)
  then show ?thesis using v by (simp add: field_simps)
qed

subsection \<open>C2: merging collapsing-lowest stores\<close>

text \<open>
  Claim C2. \<^verbatim>\<open>merge(other)\<close> on two non-empty collapsing-lowest stores sums the counters
  of \<^verbatim>\<open>other\<close> for the keys from \<^verbatim>\<open>other.min_key\<close> up to
  \<open>min (min_key, other.max_key + 1)\<close> into the receiver's bin 0. The code computes
  the two indices in \<^verbatim>\<open>other\<close> and then calls \<^verbatim>\<open>collapsed_count\<close> on the receiver's own
  \<^verbatim>\<open>bins_\<close>. Evaluated with bin limit 2: the receiver holds keys 10 and 11 (bins
  \<open>[1, 1]\<close>), \<^verbatim>\<open>other\<close> holds key 5 with weight 3 (bins \<open>[0, 3]\<close>, offset 4); the merge
  adds the receiver's own second counter, 1, to bin 0 where the claim has the 3 of
  \<^verbatim>\<open>other\<close> (the last two lines: the same index range summed over either list).
\<close>

theorem merge_lowest_adds_own_bins:
  "store_add_all (CollapsingLowestDenseStore 2 kChunkSize) [(10, 1), (11, 1)] =
     Inr \<lparr> count = 2, min_key = 10, max_key = 11, chunk_size = 128, offset = 10,
           bins = [1, 1], bin_limit = 2, is_collapsed = False, variant = CollapsingLowest \<rparr>
   \<and> store_add_all (CollapsingLowestDenseStore 2 kChunkSize) [(5, 3)] =
     Inr \<lparr> count = 3, min_key = 5, max_key = 5, chunk_size = 128, offset = 4,
           bins = [0, 3], bin_limit = 2, is_collapsed = False, variant = CollapsingLowest \<rparr>
   \<and> store_merge
        \<lparr> count = 2, min_key = 10, max_key = 11, chunk_size = 128, offset = 10,
          bins = [1, 1], bin_limit = 2, is_collapsed = False, variant = CollapsingLowest \<rparr>
        \<lparr> count = 3, min_key = 5, max_key = 5, chunk_size = 128, offset = 4,
          bins = [0, 3], bin_limit = 2, is_collapsed = False, variant = CollapsingLowest \<rparr> =
     Inr \<lparr> count = 5, min_key = 10, max_key = 11, chunk_size = 128, offset = 10,
           bins = [2, 1], bin_limit = 2, is_collapsed = True, variant = CollapsingLowest \<rparr>
   \<and> collapsed_count [1, 1] (5 - 4) (min 10 (5 + 1) - 4) = Inr 1
   \<and> collapsed_count [0, 3] (5 - 4) (min 10 (5 + 1) - 4) = Inr 3"
  by code_simp

subsection \<open>C3: the key of the value 1\<close>

text \<open>
  Claim C3, as amended. For every mapping class, relative accuracy 0.01 and every
  offset in \<open>{0, 1, -12.23, 7768.3}\<close>, \<^verbatim>\<open>key(1)\<close> is the offset with its fractional part
  discarded (truncated toward zero): 0, 1, -12 and 7768. \<^verbatim>\<open>key(v)\<close> converts
  \<open>\<lceil>log_gamma v\<rceil> + offset\<close> to \<^verbatim>\<open>Index\<close> by \<^verbatim>\<open>static_cast\<close>, and the logarithm of 1 is 0 in
  all three classes.
\<close>

theorem key_one_truncates_offset:
  assumes "new_mapping k (1 / 100) off = Inr m" and "off \<in> {0, 1, - 1223 / 100, 77683 / 10}"
  shows "mapping_key m 1 = static_cast_Index off
       \<and> static_cast_Index off =
            (if off = 0 then 0 else if off = 1 then 1 else if off = - 1223 / 100 then - 12 else 7768)"
proof -
  from assms(2) consider "off = 0" | "off = 1" | "off = - 1223 / 100" | "off = 77683 / 10"
    by blast
  then have "static_cast_Index off =
            (if off = 0 then 0 else if off = 1 then 1 else if off = - 1223 / 100 then - 12 else 7768)"
  proof cases
    case 1
    show ?thesis unfolding 1 by (simp add: static_cast_Index_def)
  next
    case 2
    show ?thesis unfolding 2 by (simp add: static_cast_Index_def)
  next
    case 3
    show ?thesis unfolding 3 by (simp add: static_cast_Index_def)
  next
    case 4
    show ?thesis unfolding 4 by (simp add: static_cast_Index_def)
  qed
  with key_one[OF assms(1)] show ?thesis by simp
qed

text \<open>The theorem at the cubically interpolated mapping with offset -12.23.\<close>

theorem key_one_truncates_offset_witness:
  "\<exists>m. new_mapping CubicallyInterpolated (1 / 100) (- 1223 / 100) = Inr m
     \<and> mapping_key m 1 = - 12"
proof -
  obtain m where m: "new_mapping CubicallyInterpolated (1 / 100) (- 1223 / 100) = Inr m"
    by (simp add: mapping_ctor_defs Let_def)
  have "(- 1223 / 100 :: real) \<in> {0, 1, - 1223 / 100, 77683 / 10}" by simp
  from key_one_truncates_offset[OF m this] have "mapping_key m 1 = - 12" by simp
  with m show ?thesis by blast
qed

text \<open>
  The claim as stated has the floor of the offset: at -12.23 the code returns -12 and
  the floor is -13.
\<close>

theorem key_one_floor_counterexample:
  "map_sum id (\<lambda>m. mapping_key m 1) (new_mapping Logarithmic (1 / 100) (- 1223 / 100))
     = Inr (- 12)
   \<and> \<lfloor>- 1223 / 100 :: real\<rfloor> = - 13"
  by (simp add: mapping_ctor_defs Let_def mapping_key_def log_gamma_def static_cast_Index_def)

subsection \<open>C4: the extremes of a new sketch\<close>

text \<open>
  Claim C4. A new sketch has \<^verbatim>\<open>min_\<close> at plus infinity and \<^verbatim>\<open>max_\<close> at minus infinity, so
  that the first \<^verbatim>\<open>add(v, w)\<close> makes both equal to \<open>v\<close> whatever the sign of \<open>v\<close>. The code
  does not: the constructor sets \<^verbatim>\<open>max_\<close> to \<^verbatim>\<open>std::numeric_limits<double>::min()\<close>, the
  smallest positive normalised double, so a first value that is zero or negative
  leaves \<^verbatim>\<open>max_\<close> at that constant. Evaluated on \<^verbatim>\<open>DDSketch(0.01)\<close> and \<^verbatim>\<open>add(-1.0)\<close>.
\<close>

theorem first_add_negative_keeps_max:
  "sketch_min (new_sketch m s ns) = DBL_MAX \<and> sketch_max (new_sketch m s ns) = DBL_MIN
   \<and> 0 < DBL_MIN
   \<and> map_sum id (\<lambda>sk. (sketch_min sk, sketch_max sk))
        (and_then (DDSketch (1 / 100)) (\<lambda>sk. sketch_add sk (- 1) 1)) = Inr (- 1, DBL_MIN)"
proof (intro conjI)
  show "map_sum id (\<lambda>sk. (sketch_min sk, sketch_max sk))
        (and_then (DDSketch (1 / 100)) (\<lambda>sk. sketch_add sk (- 1) 1)) = Inr (- 1, DBL_MIN)"
    apply (simp add: DDSketch_def LogarithmicMapping_def KeyMapping_base_def and_then_def Let_def
        sketch_add_def new_sketch_def mapping_key_def log_gamma_def static_cast_Index_def
        of_store_def update_summary_def)
    apply (simp add: binlist_defs store_defs Let_def ceiling_one_128 DBL_MIN_def DBL_MAX_def)
    done
qed (simp_all add: new_sketch_def DBL_MIN_def)

text \<open>
  In general, the first \<^verbatim>\<open>add\<close> on a new sketch leaves \<^verbatim>\<open>min_\<close> at the smaller of \<open>v\<close> and the
  largest finite double, and \<^verbatim>\<open>max_\<close> at the larger of \<open>v\<close> and the smallest positive
  normalised double.
\<close>

lemma first_add_extremes:
  assumes "sketch_add (new_sketch m s ns) v w = Inr sk"
  shows "sketch_min sk = min v DBL_MAX \<and> sketch_max sk = max v DBL_MIN"
proof -
  have pos: "DBL_MIN < DBL_MAX" by (simp add: DBL_MIN_def DBL_MAX_def)
  from assms obtain sk1 where sk1: "sk = update_summary sk1 v w"
    "sketch_min sk1 = DBL_MAX" "sketch_max sk1 = DBL_MIN"
    by (auto simp: sketch_add_def and_then_def of_store_def new_sketch_def
        split: if_splits sum.splits)
  then show ?thesis using pos by (auto simp: update_summary_def Let_def)
qed

subsection \<open>C5: the sum of the bins\<close>

text \<open>
  Claim C5. After any sequence of \<^verbatim>\<open>add\<close> and \<^verbatim>\<open>merge\<close> on a store, dense or collapsing,
  the sum of the bins equals \<^verbatim>\<open>count_\<close>. The \<^verbatim>\<open>merge\<close> of both collapsing stores breaks
  it, by the call of \<^verbatim>\<open>collapsed_count\<close> on the receiver's bins described under C2.
  Evaluated on the two one-key cases of the test suite's \<^verbatim>\<open>test_merging_far_apart\<close>
  with bin limit 20: a store holding one key receives a store holding one key 20000
  away on the collapsing side; \<^verbatim>\<open>count_\<close> becomes 2 and the bins sum to 1. The dense
  store keeps the sum on a like input.
\<close>

theorem merge_far_apart_bin_sum:
  "map_sum id (\<lambda>s. (count s, BinList_sum (bins s)))
     (and_then (store_add_all (CollapsingLowestDenseStore 20 kChunkSize) [(10000, 1)])
        (\<lambda>this. and_then (store_add_all (CollapsingLowestDenseStore 20 kChunkSize) [(- 10000, 1)])
        (\<lambda>other. store_merge this other)))
   = Inr (2, Inr 1)
  \<and> map_sum id (\<lambda>s. (count s, BinList_sum (bins s)))
     (and_then (store_add_all (CollapsingHighestDenseStore 20 kChunkSize) [(- 10000, 1)])
        (\<lambda>this. and_then (store_add_all (CollapsingHighestDenseStore 20 kChunkSize) [(10000, 1)])
        (\<lambda>other. store_merge this other)))
   = Inr (2, Inr 1)
  \<and> map_sum id (\<lambda>s. (count s, BinList_sum (bins s)))
     (and_then (store_add_all (DenseStore kChunkSize) [(100, 1)])
        (\<lambda>this. and_then (store_add_all (DenseStore kChunkSize) [(- 100, 1)])
        (\<lambda>other. store_merge this other)))
   = Inr (2, Inr 2)"
  by code_simp

subsection \<open>C6: \<^verbatim>\<open>key_at_rank\<close>\<close>




subsection \<open>C7: quantiles that are not defined\<close>

text \<open>
  Claim C7. \<^verbatim>\<open>get_quantile_value(q)\<close> returns NaN if and only if \<open>q < 0\<close>, \<open>q > 1\<close> or the
  sketch's count is 0. The function and the two it calls (\<^verbatim>\<open>key_at_rank\<close>,
  \<^verbatim>\<open>KeyMapping::value\<close>) contain no \<^verbatim>\<open>throw\<close>, so its model has no fault branch: the
  undefined inputs are answered in-band.
\<close>

theorem get_quantile_value_NaN_iff:
  "(get_quantile_value sk q = NaN) = (q < 0 \<or> q > 1 \<or> sketch_count sk = 0)"
  by (simp add: get_quantile_value_def Let_def)

subsection \<open>C8: the frame of \<^verbatim>\<open>merge\<close>\<close>

text \<open>
  Claim C8, as amended. For two sketches with equal \<open>gamma\<close>: \<^verbatim>\<open>merge(other)\<close> leaves
  \<^verbatim>\<open>other\<close> as it was; if \<^verbatim>\<open>other\<close> is empty the receiver is unchanged; if the receiver is
  empty (and \<^verbatim>\<open>other\<close> is not) the receiver keeps its own mapping and takes over the
  bins, keys and counts of both stores of \<^verbatim>\<open>other\<close> and its five scalars, and, when the
  two mappings are of the same class and also have the same offset and the same
  multiplier, it answers every quantile query as \<^verbatim>\<open>other\<close> does. \<^verbatim>\<open>copy\<close> does not assign
  the mapping, and \<^verbatim>\<open>mergeable\<close> compares only \<open>gamma\<close>. Nothing is assumed on how the
  mappings were constructed, so the statement does not rest on \<open>gamma\<close> determining
  the relative accuracy.
\<close>

theorem sketch_merge_frame:
  assumes "mergeable this other"
  shows "(\<forall>r other'. sketch_merge this other = Inr (r, other') \<longrightarrow> other' = other)
    \<and> (sketch_count other = 0 \<longrightarrow> sketch_merge this other = Inr (this, other))
    \<and> (sketch_count other \<noteq> 0 \<and> sketch_count this = 0 \<longrightarrow>
         (\<exists>r. sketch_merge this other = Inr (r, other)
            \<and> mapping r = mapping this
            \<and> same_counters (store r) (store other)
            \<and> same_counters (negative_store r) (negative_store other)
            \<and> zero_count r = zero_count other \<and> sketch_count r = sketch_count other
            \<and> sketch_sum r = sketch_sum other \<and> sketch_min r = sketch_min other
            \<and> sketch_max r = sketch_max other
            \<and> (kind (mapping this) = kind (mapping other)
                \<and> mapping_offset (mapping this) = mapping_offset (mapping other)
                \<and> multiplier (mapping this) = multiplier (mapping other) \<longrightarrow>
                  (\<forall>q. get_quantile_value r q = get_quantile_value other q))))"
proof (intro conjI allI impI)
  fix r other' assume "sketch_merge this other = Inr (r, other')"
  then show "other' = other"
    by (auto simp: sketch_merge_def and_then_def of_store_def split: if_splits sum.splits)
next
  assume "sketch_count other = 0"
  with assms show "sketch_merge this other = Inr (this, other)"
    by (simp add: sketch_merge_def)
next
  assume e: "sketch_count other \<noteq> 0 \<and> sketch_count this = 0"
  let ?r = "copy_sketch this other"
  have m: "sketch_merge this other = Inr (?r, other)"
    using e assms by (simp add: sketch_merge_def)
  have g: "gamma (mapping this) = gamma (mapping other)"
    using assms by (simp add: mergeable_def)
  have q: "\<forall>q. get_quantile_value ?r q = get_quantile_value other q"
    if "kind (mapping this) = kind (mapping other)
        \<and> mapping_offset (mapping this) = mapping_offset (mapping other)
        \<and> multiplier (mapping this) = multiplier (mapping other)"
    using that g by (simp add: get_quantile_value_copy)
  show "\<exists>r. sketch_merge this other = Inr (r, other)
            \<and> mapping r = mapping this
            \<and> same_counters (store r) (store other)
            \<and> same_counters (negative_store r) (negative_store other)
            \<and> zero_count r = zero_count other \<and> sketch_count r = sketch_count other
            \<and> sketch_sum r = sketch_sum other \<and> sketch_min r = sketch_min other
            \<and> sketch_max r = sketch_max other
            \<and> (kind (mapping this) = kind (mapping other)
                \<and> mapping_offset (mapping this) = mapping_offset (mapping other)
                \<and> multiplier (mapping this) = multiplier (mapping other) \<longrightarrow>
                  (\<forall>q. get_quantile_value r q = get_quantile_value other q))"
  proof (intro exI[of _ ?r] conjI)
    show "sketch_merge this other = Inr (?r, other)" by (rule m)
    show "same_counters (store ?r) (store other)"
      by (simp add: copy_sketch_def same_counters_copy_store)
    show "same_counters (negative_store ?r) (negative_store other)"
      by (simp add: copy_sketch_def same_counters_copy_store)
    show "kind (mapping this) = kind (mapping other)
            \<and> mapping_offset (mapping this) = mapping_offset (mapping other)
            \<and> multiplier (mapping this) = multiplier (mapping other) \<longrightarrow>
            (\<forall>q. get_quantile_value ?r q = get_quantile_value other q)"
      using q by blast
  qed (simp_all add: copy_sketch_def)
qed

text \<open>
  The theorem at the sketch \<^verbatim>\<open>example_sketch 0\<close> and the sketch that one \<^verbatim>\<open>add(1.0)\<close> makes
  of it: merging the second into the first copies it under the first's mapping,
  merging the first (empty) into the second changes nothing.
\<close>

theorem sketch_merge_frame_witness:
  "\<exists>other r. sketch_add (example_sketch 0) 1 1 = Inr other
     \<and> mergeable (example_sketch 0) other
     \<and> kind (mapping (example_sketch 0)) = kind (mapping other)
     \<and> mapping_offset (mapping (example_sketch 0)) = mapping_offset (mapping other)
     \<and> multiplier (mapping (example_sketch 0)) = multiplier (mapping other)
     \<and> sketch_count other \<noteq> 0 \<and> sketch_count (example_sketch 0) = 0
     \<and> sketch_merge (example_sketch 0) other = Inr (r, other)
     \<and> mapping r = example_mapping 0
     \<and> get_quantile_value r (1 / 2) = get_quantile_value other (1 / 2)
     \<and> get_quantile_value other (1 / 2) = Finite (1 / 2)
     \<and> sketch_merge other (example_sketch 0) = Inr (other, example_sketch 0)"
proof -
  from first_add_dense(1) obtain s where s: "store_add (DenseStore kChunkSize) 0 1 = Inr s"
    "count s = 1" "key_at_rank s 0 True = 0" by blast
  let ?fresh = "example_sketch 0"
  let ?other = "\<lparr> mapping = example_mapping 0, store = s, negative_store = DenseStore kChunkSize,
           zero_count = 0, sketch_count = 1, sketch_min = 1, sketch_max = 1, sketch_sum = 1 \<rparr>"
  have a: "sketch_add ?fresh 1 1 = Inr ?other"
    using s(1) by (intro example_add_one) (simp add: example_key_one)
  have mf: "mapping ?fresh = example_mapping 0"
    by (simp add: example_sketch_def new_sketch_def)
  have mp: "kind (mapping ?fresh) = kind (mapping ?other)"
    "mapping_offset (mapping ?fresh) = mapping_offset (mapping ?other)"
    "multiplier (mapping ?fresh) = multiplier (mapping ?other)"
    by (simp_all add: mf)
  have mg: "mergeable ?fresh ?other" "mergeable ?other ?fresh"
    by (simp_all add: mergeable_def mf)
  have c: "sketch_count ?other \<noteq> 0" "sketch_count ?fresh = 0"
    by (simp_all add: example_sketch_def new_sketch_def)
  have q: "get_quantile_value ?other (1 / 2) = Finite (1 / 2)"
    using example_quantile[OF s(2,3), of 0] by simp
  from sketch_merge_frame[OF mg(1)] c mp
  obtain r where r: "sketch_merge ?fresh ?other = Inr (r, ?other)"
    "mapping r = mapping ?fresh"
    "\<forall>q. get_quantile_value r q = get_quantile_value ?other q" by blast
  from r(2) mf have rm: "mapping r = example_mapping 0" by simp
  from sketch_merge_frame[OF mg(2)] c(2)
  have unchanged: "sketch_merge ?other ?fresh = Inr (?other, ?fresh)" by blast
  from a mg(1) mp c r(1) rm r(3) unchanged q show ?thesis by blast
qed

text \<open>
  The claim as stated fails when the offsets differ: with relative accuracy \<open>1/2\<close>
  (\<open>gamma = 3\<close>) the value 1 has key 1 under offset 1, and the receiver, whose mapping
  has offset 0, reads key 1 as \<open>3 * (2 / 4)\<close>.
\<close>

theorem merge_into_empty_counterexample:
  "\<exists>other r. sketch_add (example_sketch 1) 1 1 = Inr other
     \<and> mergeable (example_sketch 0) other
     \<and> sketch_count (example_sketch 0) = 0
     \<and> sketch_merge (example_sketch 0) other = Inr (r, other)
     \<and> get_quantile_value other (1 / 2) = Finite (1 / 2)
     \<and> get_quantile_value r (1 / 2) = Finite (3 / 2)"
proof -
  from first_add_dense(2) obtain s where s: "store_add (DenseStore kChunkSize) 1 1 = Inr s"
    "count s = 1" "key_at_rank s 0 True = 1" by blast
  let ?other = "\<lparr> mapping = example_mapping 1, store = s, negative_store = DenseStore kChunkSize,
           zero_count = 0, sketch_count = 1, sketch_min = 1, sketch_max = 1, sketch_sum = 1 \<rparr>"
  let ?r = "copy_sketch (example_sketch 0) ?other"
  have a: "sketch_add (example_sketch 1) 1 1 = Inr ?other"
    using s(1) by (intro example_add_one) (simp add: example_key_one)
  have m: "mergeable (example_sketch 0) ?other"
    by (simp add: mergeable_def example_sketch_def new_sketch_def example_mapping_def)
  have e: "sketch_count (example_sketch 0) = 0"
    by (simp add: example_sketch_def new_sketch_def)
  have mg: "sketch_merge (example_sketch 0) ?other = Inr (?r, ?other)"
    using m e by (simp add: sketch_merge_def)
  have q1: "get_quantile_value ?other (1 / 2) = Finite (1 / 2)"
    using example_quantile[OF s(2,3), of 1] by simp
  have r: "?r = \<lparr> mapping = example_mapping 0, store = copy_store (DenseStore kChunkSize) s,
           negative_store = DenseStore kChunkSize,
           zero_count = 0, sketch_count = 1, sketch_min = 1, sketch_max = 1, sketch_sum = 1 \<rparr>"
    by (simp add: copy_sketch_def example_sketch_def new_sketch_def copy_store_def DenseStore_def
        BaseDenseStore_def)
  have q2: "get_quantile_value ?r (1 / 2) = Finite (3 / 2)"
    unfolding r
    using example_quantile[of "copy_store (DenseStore kChunkSize) s" 1 0] s(2,3) two_powr_ln3
    by (simp add: copy_store_fields key_at_rank_copy_store)
  from a m e mg q1 q2 show ?thesis by blast
qed

subsection \<open>C9: merging sketches of unequal parameters\<close>

text \<open>
  Claim C9. \<^verbatim>\<open>merge(other)\<close> fails with the unequal-parameters exception exactly when
  the \<open>gamma\<close> of the two mappings differ, and \<^verbatim>\<open>mergeable(other)\<close> is true exactly when
  they are equal. No emptiness condition appears: the test comes before the two
  short-circuits for empty sketches, so the merge fails also when either sketch is
  empty.
\<close>

theorem merge_unequal_parameters:
  "(sketch_merge this other = Inl UnequalSketchParametersException)
     = (gamma (mapping this) \<noteq> gamma (mapping other))
   \<and> mergeable this other = (gamma (mapping this) = gamma (mapping other))"
  by (auto simp: sketch_merge_def mergeable_def and_then_def of_store_def split: sum.splits)

subsection \<open>C10: the average of an empty sketch\<close>

text \<open>
  Claim C10. On a sketch to which no value has been added, \<^verbatim>\<open>avg()\<close> returns NaN: the
  constructor sets \<^verbatim>\<open>sum_\<close> and \<^verbatim>\<open>count_\<close> to 0 and \<^verbatim>\<open>avg\<close> divides one by the other
  without a guard.
\<close>

theorem avg_of_fresh_sketch:
  "sketch_sum (new_sketch m s ns) = 0 \<and> sketch_count (new_sketch m s ns) = 0
   \<and> avg (new_sketch m s ns) = NaN"
  by (simp add: avg_def new_sketch_def double_div_def)

end
